theory Spec2Isabelle
  imports Main
begin

section \<open>Python values used by the bot\<close>

text \<open>
  A Python \<open>str\<close> is a sequence of Unicode code points, so it is modelled as a list of
  natural numbers; \<open>bytes\<close> is a list of byte values. An ASCII literal of the source is
  written \<open>ustr ''...''\<close>; the two Chinese literals of \<open>handle_message\<close> are given by
  their code points.
\<close>

type_synonym pystr = "nat list"
type_synonym bytes = "nat list"

definition ustr :: "string \<Rightarrow> pystr" where
  "ustr s = map of_char s"

datatype error = IndexError | KeyError | JIDError

text \<open>\<open>str.isspace\<close> for one code point: the code points Python treats as whitespace.\<close>

definition isspace :: "nat \<Rightarrow> bool" where
  "isspace c =
     ((0x09 \<le> c \<and> c \<le> 0x0D) \<or> (0x1C \<le> c \<and> c \<le> 0x20) \<or> c = 0x85 \<or> c = 0xA0 \<or>
      c = 0x1680 \<or> (0x2000 \<le> c \<and> c \<le> 0x200A) \<or> c = 0x2028 \<or> c = 0x2029 \<or>
      c = 0x202F \<or> c = 0x205F \<or> c = 0x3000)"

text \<open>\<open>s.startswith(p)\<close>.\<close>

definition startswith :: "pystr \<Rightarrow> pystr \<Rightarrow> bool" where
  "startswith s p = (take (length p) s = p)"

text \<open>
  \<open>s.split(None, 1)\<close>: leading whitespace is skipped; the first word runs to the next
  whitespace; the whitespace run after it is skipped, and what is left (if anything) is
  the second element, trailing whitespace included.
\<close>

definition split_None_1 :: "pystr \<Rightarrow> pystr list" where
  "split_None_1 s =
     (let s1 = dropWhile isspace s in
      if s1 = [] then []
      else
        let word = takeWhile (\<lambda>c. \<not> isspace c) s1;
            rest = dropWhile isspace (dropWhile (\<lambda>c. \<not> isspace c) s1)
        in if rest = [] then [word] else [word, rest])"

text \<open>\<open>xs[i]\<close> for a non-negative index: IndexError out of range.\<close>

definition getitem :: "'a list \<Rightarrow> nat \<Rightarrow> error + 'a" where
  "getitem xs i = (if i < length xs then Inr (xs ! i) else Inl IndexError)"

text \<open>\<open>'%s' % x\<close> for an optional string: \<open>None\<close> prints as \<open>None\<close>.\<close>

definition fmt_s :: "pystr option \<Rightarrow> pystr" where
  "fmt_s x = (case x of None \<Rightarrow> ustr ''None'' | Some s \<Rightarrow> s)"

text \<open>\<open>x or d\<close> for an optional string: \<open>None\<close> and the empty string are false.\<close>

definition or_else :: "pystr option \<Rightarrow> pystr \<Rightarrow> pystr" where
  "or_else x d = (case x of None \<Rightarrow> d | Some s \<Rightarrow> if s = [] then d else s)"

text \<open>\<open>str.encode()\<close>: UTF-8, for strings of Unicode scalar values.\<close>

definition encode_char :: "nat \<Rightarrow> bytes" where
  "encode_char c =
     (if c < 0x80 then [c]
      else if c < 0x800 then [0xC0 + c div 0x40, 0x80 + c mod 0x40]
      else if c < 0x10000 then
        [0xE0 + c div 0x1000, 0x80 + (c div 0x40) mod 0x40, 0x80 + c mod 0x40]
      else
        [0xF0 + c div 0x40000, 0x80 + (c div 0x1000) mod 0x40,
         0x80 + (c div 0x40) mod 0x40, 0x80 + c mod 0x40])"

definition encode :: "pystr \<Rightarrow> bytes" where
  "encode s = concat (map encode_char s)"

section \<open>Identities, the roster and stanzas\<close>

text \<open>
  A \<open>JID\<close> has an optional local part, a domain and an optional resource; \<open>bare()\<close>
  drops the resource. Two JIDs are equal when their three parts are.
\<close>

record JID =
  local :: "pystr option"
  domain :: pystr
  resource :: "pystr option"

definition bare :: "JID \<Rightarrow> JID" where
  "bare j = j\<lparr>resource := None\<rparr>"

text \<open>
  What the source imports and does not define: \<open>hashlib.md5(...).hexdigest()\<close>, the
  secret \<open>config.salt\<close>, and the constructor \<open>JID(str)\<close>, which parses a string and
  raises on one that is no JID. They are parameters of the model.
\<close>

record environ =
  md5_hexdigest :: "bytes \<Rightarrow> pystr"
  config_salt :: bytes
  JID_of_str :: "pystr \<Rightarrow> error + JID"

text \<open>\<open>hashjid(jid)\<close>; the \<open>lru_cache\<close> memoises a pure function and changes no result.\<close>

definition hashjid :: "environ \<Rightarrow> JID \<Rightarrow> pystr" where
  "hashjid env jid =
     (let bare_s = fmt_s (local jid) @ ustr ''/'' @ domain jid;
          dom = take 6 (md5_hexdigest env (encode bare_s @ config_salt env))
      in fmt_s (local jid) @ ustr ''@'' @ dom)"

text \<open>A roster item, as far as the bot reads it: \<open>x.jid\<close>, \<open>x.name\<close>, \<open>x.subscription\<close>.\<close>

record RosterItem =
  jid :: JID
  name :: "pystr option"
  subscription :: pystr

text \<open>\<open>roster[jid]\<close>: the item of that JID, KeyError when there is none.\<close>

definition roster_getitem :: "RosterItem list \<Rightarrow> JID \<Rightarrow> error + RosterItem" where
  "roster_getitem items j =
     (case find (\<lambda>x. jid x = j) items of None \<Rightarrow> Inl KeyError | Some x \<Rightarrow> Inr x)"

text \<open>
  Modelled from the spec: the roster client's \<open>update_item\<close> is library code; the spec
  gives its contract as \<open>upsertName(baseIdentity, name)\<close>. The entry of that identity
  gets the name; an identity without an entry gets a new one, with subscription
  \<open>none\<close>.
\<close>

definition upsertName :: "RosterItem list \<Rightarrow> JID \<Rightarrow> pystr \<Rightarrow> RosterItem list" where
  "upsertName items j n =
     (if find (\<lambda>x. jid x = j) items = None
      then items @ [\<lparr>jid = j, name = Some n, subscription = ustr ''none''\<rparr>]
      else map (\<lambda>x. if jid x = j then x\<lparr>name := Some n\<rparr> else x) items)"

record Stanza =
  stanza_type :: "pystr option"
  from_jid :: JID
  to_jid :: JID

record Presence = Stanza +
  "show" :: "pystr option"
  status :: "pystr option"
  priority :: int

record Message = Stanza +
  body :: "pystr option"

text \<open>The value stored per session: the dictionary with keys show, status, priority.\<close>

record PresenceRecord =
  rec_show :: "pystr option"
  rec_status :: "pystr option"
  rec_priority :: int

type_synonym sessions = "pystr option \<rightharpoonup> PresenceRecord"
type_synonym presence_store = "JID \<rightharpoonup> sessions"

text \<open>An argument of a log call, and the call: the format string with its arguments.\<close>

datatype log_arg = AInt int | AStr pystr | AJID JID | AList "log_arg list"

datatype LogRecord = LogRecord pystr "log_arg list"

section \<open>The bot\<close>

text \<open>
  The state the handlers read and write: the bot's own JID, the client's roster, the
  presence dictionary, the stanzas given to \<open>client.stream.send\<close> and the records given
  to \<open>logging.info\<close>, both in order.
\<close>

record ChatBot =
  self_jid :: JID
  roster :: "RosterItem list"
  presence :: presence_store
  sent :: "Message list"
  logged :: "LogRecord list"

definition logging_info :: "pystr \<Rightarrow> log_arg list \<Rightarrow> ChatBot \<Rightarrow> ChatBot" where
  "logging_info fmt args s = s\<lparr>logged := logged s @ [LogRecord fmt args]\<rparr>"

text \<open>
  \<open>self.presence[k]\<close> on the \<open>defaultdict(dict)\<close>: a missing key is inserted with an
  empty dictionary, which is returned.
\<close>

definition defaultdict_getitem :: "presence_store \<Rightarrow> JID \<Rightarrow> sessions \<times> presence_store" where
  "defaultdict_getitem p k =
     (case p k of None \<Rightarrow> (Map.empty, p(k \<mapsto> Map.empty)) | Some d \<Rightarrow> (d, p))"

definition handle_presence_available :: "Presence \<Rightarrow> ChatBot \<Rightarrow> bool \<times> ChatBot" where
  "handle_presence_available stanza s =
     (if stanza_type stanza \<noteq> Some (ustr ''available'') \<and> stanza_type stanza \<noteq> None
      then (False, s)
      else
        let j = from_jid stanza;
            (d, p1) = defaultdict_getitem (presence s) (bare j);
            d' = d(resource j \<mapsto>
                   \<lparr>rec_show = show stanza, rec_status = status stanza,
                    rec_priority = priority stanza\<rparr>);
            s1 = s\<lparr>presence := p1(bare j \<mapsto> d')\<rparr>
        in (True,
            logging_info (ustr ''%s[%s]'')
              [AJID j, AStr (or_else (show stanza) (ustr ''available''))] s1))"

text \<open>
  \<open>del self.presence[jid.bare()][jid.resource]\<close> inside \<open>try\<close>: the outer lookup is
  the defaultdict's, the KeyError of an absent resource is caught and skips the log call.
\<close>

definition handle_presence_unavailable :: "Presence \<Rightarrow> ChatBot \<Rightarrow> bool \<times> ChatBot" where
  "handle_presence_unavailable stanza s =
     (let j = from_jid stanza;
          (d, p1) = defaultdict_getitem (presence s) (bare j)
      in case d (resource j) of
           None \<Rightarrow> (True, s\<lparr>presence := p1\<rparr>)
         | Some _ \<Rightarrow>
             (True,
              logging_info (ustr ''%s[unavailable]'') [AJID j]
                (s\<lparr>presence := p1(bare j \<mapsto> d(resource j := None))\<rparr>)))"

text \<open>
  The comprehension of \<open>get_online_users\<close>: \<open>self.presence[x.jid]\<close> is read only for
  an item whose subscription is \<open>both\<close>, through the defaultdict, and is true when the
  dictionary is not empty.
\<close>

fun online_scan :: "RosterItem list \<Rightarrow> presence_store \<Rightarrow> RosterItem list \<times> presence_store" where
  "online_scan [] p = ([], p)"
| "online_scan (x # xs) p =
     (if subscription x = ustr ''both''
      then
        (case defaultdict_getitem p (jid x) of
           (d, p1) \<Rightarrow>
             (case online_scan xs p1 of
                (ys, p2) \<Rightarrow> (if d \<noteq> Map.empty then x # ys else ys, p2)))
      else online_scan xs p)"

definition get_online_users :: "ChatBot \<Rightarrow> RosterItem list \<times> ChatBot" where
  "get_online_users s =
     (case online_scan (roster s) (presence s) of
        (ret, p) \<Rightarrow>
          (ret,
           logging_info (ustr ''%d online buddies: %r'')
             [AInt (int (length ret)), AList (map (\<lambda>x. AJID (jid x)) ret)]
             (s\<lparr>presence := p\<rparr>)))"

definition send_message :: "JID \<Rightarrow> pystr \<Rightarrow> ChatBot \<Rightarrow> ChatBot" where
  "send_message receiver msg s =
     s\<lparr>sent := sent s @
        [\<lparr>stanza_type = Some (ustr ''chat''), from_jid = self_jid s, to_jid = receiver,
          body = Some msg\<rparr>]\<rparr>"

definition update_roster :: "JID \<Rightarrow> pystr \<Rightarrow> ChatBot \<Rightarrow> ChatBot" where
  "update_roster j n s = s\<lparr>roster := upsertName (roster s) j n\<rparr>"

text \<open>
  \<open>get_name(jid)\<close>: the argument is a string (\<open>Inl\<close>), given to \<open>JID(...)\<close>, or a JID
  (\<open>Inr\<close>), made bare; the KeyError of the roster lookup is caught.
\<close>

definition get_name :: "environ \<Rightarrow> ChatBot \<Rightarrow> pystr + JID \<Rightarrow> error + pystr" where
  "get_name env s arg =
     (case (case arg of Inl str \<Rightarrow> JID_of_str env str | Inr j \<Rightarrow> Inr (bare j)) of
        Inl e \<Rightarrow> Inl e
      | Inr j \<Rightarrow>
          (case roster_getitem (roster s) j of
             Inl e \<Rightarrow> Inr (hashjid env j)
           | Inr item \<Rightarrow> Inr (or_else (name item) (hashjid env j))))"

text \<open>The loop \<open>for u in users: if u.jid != sender: self.send_message(u.jid, msg)\<close>.\<close>

fun send_each :: "RosterItem list \<Rightarrow> JID \<Rightarrow> pystr \<Rightarrow> ChatBot \<Rightarrow> ChatBot" where
  "send_each [] sender msg s = s"
| "send_each (u # us) sender msg s =
     send_each us sender msg (if jid u \<noteq> sender then send_message (jid u) msg s else s)"

definition send_to_all :: "environ \<Rightarrow> JID \<Rightarrow> pystr \<Rightarrow> ChatBot \<Rightarrow> (error + unit) \<times> ChatBot" where
  "send_to_all env sender msg s =
     (case get_name env s (Inr sender) of
        Inl e \<Rightarrow> (Inl e, s)
      | Inr nm \<Rightarrow>
          (case get_online_users s of
             (us, s1) \<Rightarrow>
               (Inr (), send_each us sender (ustr ''['' @ nm @ ustr ''] '' @ msg) s1)))"

definition nick_updated :: pystr where
  "nick_updated = [0x6635, 0x79F0, 0x66F4, 0x65B0, 0x6210, 0x529F, 0xFF01]"

definition nick_announcement :: "pystr \<Rightarrow> pystr \<Rightarrow> pystr" where
  "nick_announcement old_nick nick =
     old_nick @ [0x20, 0x7684, 0x6635, 0x79F0, 0x5DF2, 0x66F4, 0x65B0, 0x4E3A, 0x20] @ nick @
     [0x3002]"

text \<open>
  \<open>handle_message\<close>: the result is what the handler returns or the exception it raises,
  with the state as the handler left it.
\<close>

definition handle_message :: "environ \<Rightarrow> Message \<Rightarrow> ChatBot \<Rightarrow> (error + bool) \<times> ChatBot" where
  "handle_message env stanza s =
     (case body stanza of
        None \<Rightarrow> (Inr True, s)
      | Some b \<Rightarrow>
          let sender = from_jid stanza;
              bare_j = bare sender;
              s1 = logging_info (ustr ''[%s] %s'') [AJID bare_j, AStr b] s
          in
            if b = ustr ''ping'' then (Inr True, send_message bare_j (ustr ''pong'') s1)
            else if startswith b (ustr ''-nick '') then
              (case getitem (split_None_1 b) 1 of
                 Inl e \<Rightarrow> (Inl e, s1)
               | Inr nick \<Rightarrow>
                   (case get_name env s1 (Inr sender) of
                      Inl e \<Rightarrow> (Inl e, s1)
                    | Inr old_nick \<Rightarrow>
                        let s2 = update_roster bare_j nick s1;
                            s3 = send_message sender nick_updated s2;
                            msg = nick_announcement old_nick nick
                        in case get_online_users s3 of
                             (us, s4) \<Rightarrow> (Inr True, send_each us bare_j msg s4)))
            else
              (case send_to_all env bare_j b s1 of
                 (Inl e, s2) \<Rightarrow> (Inl e, s2)
               | (Inr u, s2) \<Rightarrow> (Inr True, s2)))"

section \<open>Presence records and the history of presence events\<close>

text \<open>
  The truth value of \<open>self.presence[b]\<close> without the defaultdict's insertion: the
  store has a dictionary for \<open>b\<close>, and it is not empty.
\<close>

definition is_present :: "presence_store \<Rightarrow> JID \<Rightarrow> bool" where
  "is_present p b = (case p b of None \<Rightarrow> False | Some d \<Rightarrow> d \<noteq> Map.empty)"

text \<open>The store holds a record for the session \<open>r\<close> of \<open>b\<close>.\<close>

definition has_record :: "presence_store \<Rightarrow> JID \<Rightarrow> pystr option \<Rightarrow> bool" where
  "has_record p b r = (case p b of None \<Rightarrow> False | Some d \<Rightarrow> d r \<noteq> None)"

text \<open>The dictionary of \<open>b\<close>, empty when the store has none.\<close>

definition sessions_of :: "presence_store \<Rightarrow> JID \<Rightarrow> sessions" where
  "sessions_of p b = (case p b of None \<Rightarrow> Map.empty | Some d \<Rightarrow> d)"

text \<open>
  The inbound events that reach the three handlers, and a run of the bot over a list of
  them. The state after an exception is the state the handler left.
\<close>

datatype event =
  PresenceAvailable Presence
| PresenceUnavailable Presence
| ChatMessage Message

definition step :: "environ \<Rightarrow> ChatBot \<Rightarrow> event \<Rightarrow> ChatBot" where
  "step env s e =
     (case e of
        PresenceAvailable stanza \<Rightarrow> snd (handle_presence_available stanza s)
      | PresenceUnavailable stanza \<Rightarrow> snd (handle_presence_unavailable stanza s)
      | ChatMessage stanza \<Rightarrow> snd (handle_message env stanza s))"

definition run :: "environ \<Rightarrow> ChatBot \<Rightarrow> event list \<Rightarrow> ChatBot" where
  "run env s es = foldl (step env) s es"

text \<open>
  The spec's words, for comparison with the store: the event is a \<open>markAvailable\<close> for
  the session \<open>r\<close> of \<open>b\<close> (an availability stanza whose type is \<open>available\<close> or
  absent), or a \<open>markUnavailable\<close> for it.
\<close>

definition marks_available :: "event \<Rightarrow> JID \<Rightarrow> pystr option \<Rightarrow> bool" where
  "marks_available e b r =
     (case e of
        PresenceAvailable stanza \<Rightarrow>
          (stanza_type stanza = Some (ustr ''available'') \<or> stanza_type stanza = None) \<and>
          bare (from_jid stanza) = b \<and> resource (from_jid stanza) = r
      | PresenceUnavailable stanza \<Rightarrow> False
      | ChatMessage stanza \<Rightarrow> False)"

definition marks_unavailable :: "event \<Rightarrow> JID \<Rightarrow> pystr option \<Rightarrow> bool" where
  "marks_unavailable e b r =
     (case e of
        PresenceAvailable stanza \<Rightarrow> False
      | PresenceUnavailable stanza \<Rightarrow>
          bare (from_jid stanza) = b \<and> resource (from_jid stanza) = r
      | ChatMessage stanza \<Rightarrow> False)"

text \<open>The sub-identity an event speaks for.\<close>

definition event_resource :: "event \<Rightarrow> pystr option" where
  "event_resource e =
     (case e of
        PresenceAvailable stanza \<Rightarrow> resource (from_jid stanza)
      | PresenceUnavailable stanza \<Rightarrow> resource (from_jid stanza)
      | ChatMessage stanza \<Rightarrow> resource (from_jid stanza))"

text \<open>
  The spec's words: some \<open>markAvailable\<close> for the base identity \<open>b\<close> has no matching
  subsequent \<open>markUnavailable\<close> for the same sub-identity.
\<close>

fun unmatched_available :: "JID \<Rightarrow> event list \<Rightarrow> bool" where
  "unmatched_available b [] = False"
| "unmatched_available b (e # es) =
     ((marks_available e b (event_resource e) \<and>
       \<not> list_ex (\<lambda>e'. marks_unavailable e' b (event_resource e)) es) \<or>
      unmatched_available b es)"

text \<open>
  The same for one session: some \<open>markAvailable\<close> for the session \<open>r\<close> of \<open>b\<close> has no
  subsequent \<open>markUnavailable\<close> for it.
\<close>

fun live_session :: "JID \<Rightarrow> pystr option \<Rightarrow> event list \<Rightarrow> bool" where
  "live_session b r [] = False"
| "live_session b r (e # es) =
     ((marks_available e b r \<and> \<not> list_ex (\<lambda>e'. marks_unavailable e' b r) es) \<or>
      live_session b r es)"

section \<open>Sample data\<close>

text \<open>
  A stand-in for the digest and an instance of the JID constructor for the examples:
  the grammar \<open>local@domain/resource\<close>, split at the first \<open>/\<close> and the first \<open>@\<close>,
  with the domain required.
\<close>

definition sample_digest :: "bytes \<Rightarrow> pystr" where
  "sample_digest bs = ustr ''9f86d081884c7d659a2feaa0c55ad015''"

definition parse_jid :: "pystr \<Rightarrow> error + JID" where
  "parse_jid s =
     (let slash = of_char CHR ''/''; at = of_char CHR ''@'';
          front = takeWhile (\<lambda>c. c \<noteq> slash) s;
          res = (if slash \<in> set s then Some (tl (dropWhile (\<lambda>c. c \<noteq> slash) s)) else None);
          loc = (if at \<in> set front then Some (takeWhile (\<lambda>c. c \<noteq> at) front) else None);
          dom = (if at \<in> set front then tl (dropWhile (\<lambda>c. c \<noteq> at) front) else front)
      in if dom = [] then Inl JIDError
         else Inr \<lparr>local = loc, domain = dom, resource = res\<rparr>)"

definition sample_env :: environ where
  "sample_env =
     \<lparr>md5_hexdigest = sample_digest, config_salt = [0x73, 0x61, 0x6C, 0x74],
      JID_of_str = parse_jid\<rparr>"

definition alice :: JID where
  "alice = \<lparr>local = Some (ustr ''alice''), domain = ustr ''example.org'', resource = None\<rparr>"

definition alice_phone :: JID where
  "alice_phone =
     \<lparr>local = Some (ustr ''alice''), domain = ustr ''example.org'',
      resource = Some (ustr ''phone'')\<rparr>"

definition bob :: JID where
  "bob = \<lparr>local = Some (ustr ''bob''), domain = ustr ''example.org'', resource = None\<rparr>"

definition bob_desk :: JID where
  "bob_desk =
     \<lparr>local = Some (ustr ''bob''), domain = ustr ''example.org'',
      resource = Some (ustr ''desk'')\<rparr>"

definition bot_jid :: JID where
  "bot_jid =
     \<lparr>local = Some (ustr ''bot''), domain = ustr ''example.org'',
      resource = Some (ustr ''bot'')\<rparr>"

definition sample_roster :: "RosterItem list" where
  "sample_roster =
     [\<lparr>jid = alice, name = Some (ustr ''Al''), subscription = ustr ''both''\<rparr>,
      \<lparr>jid = bob, name = None, subscription = ustr ''both''\<rparr>]"

text \<open>The bot as \<open>__init__\<close> leaves it, with the sample roster.\<close>

definition sample_bot :: ChatBot where
  "sample_bot =
     \<lparr>self_jid = bot_jid, roster = sample_roster, presence = Map.empty, sent = [],
      logged = []\<rparr>"

definition presence_from :: "JID \<Rightarrow> pystr option \<Rightarrow> Presence" where
  "presence_from j ty =
     \<lparr>stanza_type = ty, from_jid = j, to_jid = bot_jid, show = None, status = None,
      priority = 0\<rparr>"

definition message_from :: "JID \<Rightarrow> pystr \<Rightarrow> Message" where
  "message_from j b =
     \<lparr>stanza_type = Some (ustr ''chat''), from_jid = j, to_jid = bot_jid, body = Some b\<rparr>"

text \<open>The sample bot after Bob came online from his desk.\<close>

definition bob_online :: ChatBot where
  "bob_online = snd (handle_presence_available (presence_from bob_desk None) sample_bot)"

text \<open>
  A history: Alice and Bob come online, Alice says hello, Bob goes offline.
\<close>

definition sample_trace :: "event list" where
  "sample_trace =
     [PresenceAvailable (presence_from alice_phone None),
      PresenceAvailable (presence_from bob_desk (Some (ustr ''available''))),
      ChatMessage (message_from alice_phone (ustr ''hello'')),
      PresenceUnavailable (presence_from bob_desk (Some (ustr ''unavailable'')))]"

text \<open>\<open>roster[j].name\<close>, with \<open>None\<close> when the roster has no item for \<open>j\<close>.\<close>

definition stored_name :: "RosterItem list \<Rightarrow> JID \<Rightarrow> pystr option" where
  "stored_name items j =
     (case roster_getitem items j of Inl e \<Rightarrow> None | Inr item \<Rightarrow> name item)"

text \<open>The stanza \<open>send_message\<close> builds in state \<open>s\<close>.\<close>

definition chat_to :: "ChatBot \<Rightarrow> JID \<Rightarrow> pystr \<Rightarrow> Message" where
  "chat_to s receiver msg =
     \<lparr>stanza_type = Some (ustr ''chat''), from_jid = self_jid s, to_jid = receiver,
      body = Some msg\<rparr>"

text \<open>The state after Alice, from her phone, asked for the nickname Bob while Bob was online.\<close>

definition after_nick_Bob :: ChatBot where
  "after_nick_Bob =
     snd (handle_message sample_env (message_from alice_phone (ustr ''-nick Bob'')) bob_online)"

section \<open>Facts about the presence store\<close>

lemma is_present_iff: "is_present p b \<longleftrightarrow> (\<exists>r. has_record p b r)"
  by (auto simp: is_present_def has_record_def fun_eq_iff split: option.splits)

lemma has_record_getitem_snd [simp]:
  "has_record (snd (defaultdict_getitem p k)) b r = has_record p b r"
  by (auto simp: defaultdict_getitem_def has_record_def split: option.splits)

lemma fst_defaultdict_getitem: "fst (defaultdict_getitem p k) = sessions_of p k"
  by (simp add: defaultdict_getitem_def sessions_of_def split: option.splits)

lemma sessions_of_nonempty: "sessions_of p k \<noteq> Map.empty \<longleftrightarrow> is_present p k"
  by (simp add: sessions_of_def is_present_def split: option.splits)

lemma is_present_getitem_snd [simp]:
  "is_present (snd (defaultdict_getitem p k)) b = is_present p b"
  by (simp add: is_present_iff)

lemma online_scan_fst:
  "fst (online_scan xs p) =
   filter (\<lambda>x. subscription x = ustr ''both'' \<and> is_present p (jid x)) xs"
proof (induction xs arbitrary: p)
  case Nil
  show ?case by simp
next
  case (Cons x xs)
  obtain d p1 where g: "defaultdict_getitem p (jid x) = (d, p1)"
    by (cases "defaultdict_getitem p (jid x)")
  have d: "d = sessions_of p (jid x)" using g fst_defaultdict_getitem [of p "jid x"] by simp
  have p1: "\<And>b. is_present p1 b = is_present p b"
    using g is_present_getitem_snd [of p "jid x"] by simp
  obtain ys p2 where r: "online_scan xs p1 = (ys, p2)"
    by (cases "online_scan xs p1")
  have ys: "ys = filter (\<lambda>x. subscription x = ustr ''both'' \<and> is_present p (jid x)) xs"
    using Cons.IH [of p1] r p1 by simp
  show ?case
    using Cons.IH [of p] g r ys d sessions_of_nonempty [of p "jid x"] by simp
qed

lemma online_scan_has_record:
  "has_record (snd (online_scan xs p)) b r = has_record p b r"
proof (induction xs arbitrary: p)
  case Nil
  show ?case by simp
next
  case (Cons x xs)
  show ?case
    using Cons.IH [of p] Cons.IH [of "snd (defaultdict_getitem p (jid x))"]
    by (simp add: split_beta)
qed


lemma get_online_users_fst:
  "fst (get_online_users s) =
   filter (\<lambda>x. subscription x = ustr ''both'' \<and> is_present (presence s) (jid x)) (roster s)"
  using online_scan_fst [of "roster s" "presence s"]
  by (simp add: get_online_users_def split_beta)

lemma get_online_users_snd:
  "snd (get_online_users s) =
   logging_info (ustr ''%d online buddies: %r'')
     [AInt (int (length (fst (get_online_users s)))),
      AList (map (\<lambda>x. AJID (jid x)) (fst (get_online_users s)))]
     (s\<lparr>presence := snd (online_scan (roster s) (presence s))\<rparr>)"
  by (simp add: get_online_users_def split_beta)

lemma get_online_users_fields:
  "roster (snd (get_online_users s)) = roster s"
  "sent (snd (get_online_users s)) = sent s"
  "self_jid (snd (get_online_users s)) = self_jid s"
  "presence (snd (get_online_users s)) = snd (online_scan (roster s) (presence s))"
  by (simp_all add: get_online_users_def split_beta logging_info_def)

lemma get_online_users_has_record:
  "has_record (presence (snd (get_online_users s))) b r = has_record (presence s) b r"
  by (simp add: get_online_users_fields online_scan_has_record)

lemma online_scan_store:
  "snd (online_scan xs p) b = p b \<or>
   (p b = None \<and> snd (online_scan xs p) b = Some Map.empty \<and>
    b \<in> jid ` {x \<in> set xs. subscription x = ustr ''both''})"
proof (induction xs arbitrary: p)
  case Nil
  show ?case by simp
next
  case (Cons x xs)
  show ?case
  proof (cases "subscription x = ustr ''both''")
    case False
    then show ?thesis using Cons.IH [of p] by auto
  next
    case True
    let ?p1 = "snd (defaultdict_getitem p (jid x))"
    have scan: "snd (online_scan (x # xs) p) = snd (online_scan xs ?p1)"
      using True by (simp add: split_beta)
    have p1: "?p1 b = p b \<or> (p b = None \<and> ?p1 b = Some Map.empty \<and> b = jid x)"
      by (simp add: defaultdict_getitem_def split: option.splits)
    show ?thesis
      using Cons.IH [of ?p1] p1 True unfolding scan by auto
  qed
qed


lemma available_has_record:
  "has_record (presence (snd (handle_presence_available stanza s))) b r \<longleftrightarrow>
   marks_available (PresenceAvailable stanza) b r \<or> has_record (presence s) b r"
  by (auto simp: handle_presence_available_def marks_available_def has_record_def
      defaultdict_getitem_def logging_info_def Let_def split: option.splits)

lemma unavailable_has_record:
  "has_record (presence (snd (handle_presence_unavailable stanza s))) b r \<longleftrightarrow>
   has_record (presence s) b r \<and> \<not> marks_unavailable (PresenceUnavailable stanza) b r"
  by (auto simp: handle_presence_unavailable_def marks_unavailable_def has_record_def
      defaultdict_getitem_def logging_info_def Let_def split: option.splits)

lemma send_each_fields:
  "roster (send_each us sender msg s) = roster s"
  "presence (send_each us sender msg s) = presence s"
  "self_jid (send_each us sender msg s) = self_jid s"
  "logged (send_each us sender msg s) = logged s"
  by (induction us arbitrary: s) (simp_all add: send_message_def)

lemma send_each_sent:
  "sent (send_each us sender msg s) =
   sent s @
   map (\<lambda>u. \<lparr>stanza_type = Some (ustr ''chat''), from_jid = self_jid s, to_jid = jid u,
             body = Some msg\<rparr>)
     (filter (\<lambda>u. jid u \<noteq> sender) us)"
  by (induction us arbitrary: s) (simp_all add: send_message_def)

lemma get_name_JID:
  "get_name env s (Inr j) =
   Inr (case find (\<lambda>x. jid x = bare j) (roster s) of
          None \<Rightarrow> hashjid env (bare j)
        | Some item \<Rightarrow> or_else (name item) (hashjid env (bare j)))"
  by (simp add: get_name_def roster_getitem_def split: option.splits)

lemma send_to_all_eq:
  "send_to_all env sender msg s =
   (Inr (),
    send_each (fst (get_online_users s)) sender
      (ustr ''['' @ projr (get_name env s (Inr sender)) @ ustr ''] '' @ msg)
      (snd (get_online_users s)))"
  by (simp add: send_to_all_def get_name_JID split_beta)

lemma message_has_record:
  "has_record (presence (snd (handle_message env stanza s))) b r = has_record (presence s) b r"
  by (simp add: handle_message_def send_to_all_eq get_name_JID Let_def getitem_def
      send_each_fields get_online_users_has_record send_message_def update_roster_def
      logging_info_def split_beta split: option.splits sum.splits)


lemma marks_available_resource: "marks_available e b r \<Longrightarrow> r = event_resource e"
  by (cases e) (auto simp: marks_available_def event_resource_def)

lemma unmatched_available_iff: "unmatched_available b es \<longleftrightarrow> (\<exists>r. live_session b r es)"
proof (induction es)
  case Nil
  show ?case by simp
next
  case (Cons e es)
  show ?case using Cons.IH marks_available_resource [of e b] by auto
qed

lemma step_has_record:
  "has_record (presence (step env s e)) b r \<longleftrightarrow>
   marks_available e b r \<or> (has_record (presence s) b r \<and> \<not> marks_unavailable e b r)"
proof (cases e)
  case (PresenceAvailable stanza)
  then show ?thesis
    using available_has_record [of stanza s b r]
    by (simp add: step_def marks_unavailable_def)
next
  case (PresenceUnavailable stanza)
  then show ?thesis
    using unavailable_has_record [of stanza s b r]
    by (simp add: step_def marks_available_def)
next
  case (ChatMessage stanza)
  then show ?thesis
    using message_has_record [of env stanza s b r]
    by (simp add: step_def marks_available_def marks_unavailable_def)
qed

lemma run_has_record:
  "has_record (presence (run env s es)) b r \<longleftrightarrow>
   (has_record (presence s) b r \<and> \<not> list_ex (\<lambda>e. marks_unavailable e b r) es) \<or>
   live_session b r es"
proof (induction es arbitrary: s)
  case Nil
  show ?case by (simp add: run_def)
next
  case (Cons e es)
  have "run env s (e # es) = run env (step env s e) es" by (simp add: run_def)
  then show ?case
    using Cons.IH [of "step env s e"] step_has_record [of env s e b r] by auto
qed

lemma run_is_present:
  assumes "presence s = Map.empty"
  shows "is_present (presence (run env s es)) b = unmatched_available b es"
proof -
  have "\<not> has_record (presence s) b r" for r
    using assms by (simp add: has_record_def)
  then have "has_record (presence (run env s es)) b r = live_session b r es" for r
    by (simp add: run_has_record)
  then show ?thesis
    by (simp add: is_present_iff unmatched_available_iff)
qed

section \<open>The online set\<close>

text \<open>
  Claim C1. In every state, \<open>get_online_users\<close> returns, in roster order, exactly the
  roster items whose subscription is \<open>both\<close> and whose identity has at least one
  presence record; an item with any other subscription is left out whatever the store
  holds. After any history of events from the initial empty store, those are the items
  whose identity has some \<open>markAvailable\<close> with no later \<open>markUnavailable\<close> for the
  same sub-identity.
\<close>

theorem get_online_users_online_set:
  "fst (get_online_users s) =
     filter (\<lambda>x. subscription x = ustr ''both'' \<and> (\<exists>r. has_record (presence s) (jid x) r))
       (roster s) \<and>
   (presence s0 = Map.empty \<longrightarrow>
    fst (get_online_users (run env s0 es)) =
      filter (\<lambda>x. subscription x = ustr ''both'' \<and> unmatched_available (jid x) es)
        (roster (run env s0 es)))"
  by (simp add: get_online_users_fst is_present_iff [symmetric] run_is_present)

lemma roster_run_sample: "roster (run sample_env sample_bot sample_trace) = sample_roster"
  by (simp add: run_def step_def sample_trace_def handle_presence_available_def Let_def
    handle_presence_unavailable_def handle_message_def send_to_all_eq send_each_fields
    get_online_users_fields logging_info_def send_message_def presence_from_def
    message_from_def sample_bot_def ustr_def startswith_def defaultdict_getitem_def
    split: option.splits)

theorem get_online_users_online_set_witness:
  "presence sample_bot = Map.empty \<and>
   map jid (fst (get_online_users (run sample_env sample_bot sample_trace))) = [alice]"
proof -
  have p: "presence sample_bot = Map.empty"
    by (simp add: sample_bot_def)
  have "fst (get_online_users (run sample_env sample_bot sample_trace)) =
      filter (\<lambda>x. subscription x = ustr ''both'' \<and> unmatched_available (jid x) sample_trace)
        (roster (run sample_env sample_bot sample_trace))"
    using get_online_users_online_set
      [of "run sample_env sample_bot sample_trace" sample_bot sample_env sample_trace] p
    by blast
  then have "fst (get_online_users (run sample_env sample_bot sample_trace)) =
      filter (\<lambda>x. subscription x = ustr ''both'' \<and> unmatched_available (jid x) sample_trace)
        sample_roster"
    by (simp only: roster_run_sample)
  then show ?thesis
    using p
    by (simp add: sample_roster_def sample_trace_def marks_available_def
        marks_unavailable_def event_resource_def presence_from_def message_from_def alice_def
        bob_def alice_phone_def bob_desk_def bare_def ustr_def)
qed

section \<open>The presence handlers\<close>

text \<open>
  Claim C10. The availability handler handles a stanza exactly when its type is
  \<open>available\<close> or absent. It then returns true, having entered or overwritten the record
  of the sender's (base identity, sub-identity) with the stanza's show, status and
  priority; for any other type it returns false and leaves the state as it was. Neither
  case raises.
\<close>

theorem handle_presence_available_spec:
  "(stanza_type stanza = Some (ustr ''available'') \<or> stanza_type stanza = None \<longrightarrow>
    handle_presence_available stanza s =
      (True,
       s\<lparr>presence :=
            (presence s)(bare (from_jid stanza) \<mapsto>
              (sessions_of (presence s) (bare (from_jid stanza)))(resource (from_jid stanza) \<mapsto>
                \<lparr>rec_show = show stanza, rec_status = status stanza,
                 rec_priority = priority stanza\<rparr>)),
          logged :=
            logged s @
            [LogRecord (ustr ''%s[%s]'')
               [AJID (from_jid stanza),
                AStr (or_else (show stanza) (ustr ''available''))]]\<rparr>)) \<and>
   (stanza_type stanza \<noteq> Some (ustr ''available'') \<and> stanza_type stanza \<noteq> None \<longrightarrow>
    handle_presence_available stanza s = (False, s))"
  by (auto simp: handle_presence_available_def defaultdict_getitem_def sessions_of_def
      logging_info_def Let_def split: option.splits)

theorem handle_presence_available_spec_witness:
  "fst (handle_presence_available (presence_from bob_desk None) sample_bot) \<and>
   has_record (presence (snd (handle_presence_available (presence_from bob_desk None) sample_bot)))
     bob (Some (ustr ''desk'')) \<and>
   handle_presence_available (presence_from bob_desk (Some (ustr ''probe''))) sample_bot =
     (False, sample_bot)"
  using handle_presence_available_spec [of "presence_from bob_desk None" sample_bot]
    handle_presence_available_spec [of "presence_from bob_desk (Some (ustr ''probe''))" sample_bot]
  by (simp add: presence_from_def has_record_def bob_desk_def bob_def bare_def ustr_def)

text \<open>
  Claim C3 as stated fails: for a base identity the store has never seen, the
  defaultdict lookup of \<open>handle_presence_unavailable\<close> enters an empty dictionary for it,
  so the store after the call is not the store before it.
\<close>

theorem handle_presence_unavailable_changes_store:
  "presence sample_bot alice = None \<and>
   \<not> has_record (presence sample_bot) (bare alice_phone) (resource alice_phone) \<and>
   presence (snd (handle_presence_unavailable
       (presence_from alice_phone (Some (ustr ''unavailable''))) sample_bot)) alice =
     Some Map.empty \<and>
   presence (snd (handle_presence_unavailable
       (presence_from alice_phone (Some (ustr ''unavailable''))) sample_bot)) \<noteq>
     presence sample_bot"
proof -
  let ?s = "snd (handle_presence_unavailable
       (presence_from alice_phone (Some (ustr ''unavailable''))) sample_bot)"
  have a: "presence sample_bot alice = None"
    by (simp add: sample_bot_def)
  have b: "presence ?s alice = Some Map.empty"
    by (simp add: handle_presence_unavailable_def presence_from_def defaultdict_getitem_def
        sample_bot_def alice_phone_def alice_def bare_def)
  have "presence ?s \<noteq> presence sample_bot"
  proof
    assume "presence ?s = presence sample_bot"
    then have "presence ?s alice = presence sample_bot alice" by simp
    then show False using a b by simp
  qed
  then show ?thesis
    using a b by (simp add: has_record_def sample_bot_def)
qed

text \<open>
  Claim C3, amended. For a (base identity, sub-identity) without a record,
  \<open>handle_presence_unavailable\<close> returns true without raising, and adds and removes
  no presence record. Where the store already has a dictionary for the base identity the
  state is unchanged; for a base identity it has never seen, the one change is an empty
  dictionary entered for that identity.
\<close>

theorem handle_presence_unavailable_absent:
  assumes "\<not> has_record (presence s) (bare (from_jid stanza)) (resource (from_jid stanza))"
  shows "handle_presence_unavailable stanza s =
           (True,
            s\<lparr>presence :=
                 (presence s)(bare (from_jid stanza) \<mapsto>
                   sessions_of (presence s) (bare (from_jid stanza)))\<rparr>) \<and>
         (\<forall>b r. has_record (presence (snd (handle_presence_unavailable stanza s))) b r =
                has_record (presence s) b r) \<and>
         (presence s (bare (from_jid stanza)) \<noteq> None \<longrightarrow>
          handle_presence_unavailable stanza s = (True, s))"
proof -
  have eq: "handle_presence_unavailable stanza s =
           (True,
            s\<lparr>presence :=
                 (presence s)(bare (from_jid stanza) \<mapsto>
                   sessions_of (presence s) (bare (from_jid stanza)))\<rparr>)"
    using assms
    by (auto simp: handle_presence_unavailable_def defaultdict_getitem_def sessions_of_def
        has_record_def Let_def map_upd_triv split: option.splits)
  have same: "presence s (bare (from_jid stanza)) \<noteq> None \<Longrightarrow>
      (presence s)(bare (from_jid stanza) \<mapsto> sessions_of (presence s) (bare (from_jid stanza))) =
      presence s"
    by (auto simp: sessions_of_def fun_eq_iff)
  have rec: "has_record (presence (snd (handle_presence_unavailable stanza s))) b r =
      has_record (presence s) b r" for b r
    unfolding eq by (simp add: has_record_def sessions_of_def split: option.splits)
  show ?thesis
    using eq same rec by simp
qed

theorem handle_presence_unavailable_absent_witness:
  "\<not> has_record (presence sample_bot) (bare alice_phone) (resource alice_phone) \<and>
   fst (handle_presence_unavailable (presence_from alice_phone None) sample_bot) \<and>
   \<not> is_present
       (presence (snd (handle_presence_unavailable (presence_from alice_phone None) sample_bot)))
       alice \<and>
   roster (snd (handle_presence_unavailable (presence_from alice_phone None) sample_bot)) =
     sample_roster"
proof -
  have h: "\<not> has_record (presence sample_bot) (bare (from_jid (presence_from alice_phone None)))
     (resource (from_jid (presence_from alice_phone None)))"
    by (simp add: has_record_def sample_bot_def)
  show ?thesis
    using handle_presence_unavailable_absent [OF h] h
    by (simp add: presence_from_def is_present_def sessions_of_def sample_bot_def
        alice_phone_def alice_def bare_def)
qed


section \<open>The online set is a query\<close>

text \<open>
  Claim C4 as stated fails: \<open>get_online_users\<close> reads \<open>self.presence[x.jid]\<close> through the
  defaultdict, which enters an empty dictionary for a \<open>both\<close> item the store has not
  seen.
\<close>

theorem get_online_users_changes_store:
  "presence sample_bot alice = None \<and>
   presence (snd (get_online_users sample_bot)) alice = Some Map.empty \<and>
   presence (snd (get_online_users sample_bot)) \<noteq> presence sample_bot"
proof -
  have a: "presence sample_bot alice = None"
    by (simp add: sample_bot_def)
  have b: "presence (snd (get_online_users sample_bot)) alice = Some Map.empty"
    by (simp add: get_online_users_fields sample_bot_def sample_roster_def
        defaultdict_getitem_def alice_def bob_def ustr_def)
  have "presence (snd (get_online_users sample_bot)) \<noteq> presence sample_bot"
  proof
    assume "presence (snd (get_online_users sample_bot)) = presence sample_bot"
    then have "presence (snd (get_online_users sample_bot)) alice = presence sample_bot alice"
      by simp
    then show False using a b by simp
  qed
  then show ?thesis using a b by simp
qed

text \<open>
  Claim C4, amended. \<open>get_online_users\<close> leaves the roster, the sent stanzas and the
  bot's identity as they were, and adds and removes no presence record: every identity
  is present after the call exactly when it was before. The presence store changes at
  most by an empty dictionary entered for a roster item of subscription \<open>both\<close> that
  had none.
\<close>

theorem get_online_users_frame:
  "roster (snd (get_online_users s)) = roster s \<and>
   sent (snd (get_online_users s)) = sent s \<and>
   self_jid (snd (get_online_users s)) = self_jid s \<and>
   (\<forall>b r. has_record (presence (snd (get_online_users s))) b r = has_record (presence s) b r) \<and>
   (\<forall>b. is_present (presence (snd (get_online_users s))) b = is_present (presence s) b) \<and>
   (\<forall>b. presence (snd (get_online_users s)) b = presence s b \<or>
        (presence s b = None \<and> presence (snd (get_online_users s)) b = Some Map.empty \<and>
         b \<in> jid ` {x \<in> set (roster s). subscription x = ustr ''both''}))"
  using online_scan_store [of "roster s" "presence s"]
  by (simp add: get_online_users_fields online_scan_has_record is_present_iff)

text \<open>
  Claim C8, amended. Every call of \<open>get_online_users\<close> appends exactly one log record:
  the count of the online contacts and the list of their JIDs, as they stand in the
  roster and not anonymized.
\<close>

theorem get_online_users_logs_jids:
  "logged (snd (get_online_users s)) =
   logged s @
   [LogRecord (ustr ''%d online buddies: %r'')
      [AInt (int (length (fst (get_online_users s)))),
       AList (map (\<lambda>x. AJID (jid x)) (fst (get_online_users s)))]]"
  by (simp add: get_online_users_def logging_info_def split_beta)

lemma bob_online_fields:
  "roster bob_online = sample_roster"
  "presence bob_online =
     [bob \<mapsto> [Some (ustr ''desk'') \<mapsto> \<lparr>rec_show = None, rec_status = None, rec_priority = 0\<rparr>]]"
  "sent bob_online = []"
  "self_jid bob_online = bot_jid"
  by (simp_all add: bob_online_def handle_presence_available_def presence_from_def
      defaultdict_getitem_def logging_info_def sample_bot_def bob_desk_def bob_def bare_def)

lemma online_bob_online:
  "fst (get_online_users bob_online) =
   [\<lparr>jid = bob, name = None, subscription = ustr ''both''\<rparr>]"
  by (simp add: get_online_users_fst bob_online_fields sample_roster_def is_present_def
      alice_def bob_def ustr_def)

text \<open>
  Claim C8 as stated fails: with Bob online, the record logged holds Bob's JID, not the
  pseudonym \<open>hashjid\<close> gives him.
\<close>

theorem get_online_users_log_not_anonymized:
  "map jid (fst (get_online_users bob_online)) = [bob] \<and>
   last (logged (snd (get_online_users bob_online))) =
     LogRecord (ustr ''%d online buddies: %r'') [AInt 1, AList [AJID bob]] \<and>
   last (logged (snd (get_online_users bob_online))) \<noteq>
     LogRecord (ustr ''%d online buddies: %r'')
       [AInt 1, AList (map (\<lambda>x. AStr (hashjid sample_env (jid x)))
          (fst (get_online_users bob_online)))]"
  by (simp add: get_online_users_snd logging_info_def online_bob_online)

section \<open>The message handler\<close>

lemma nick_prefix:
  "startswith (ustr ''-nick '' @ rest) (ustr ''-nick '')"
  "ustr ''-nick '' @ rest \<noteq> ustr ''ping''"
  by (simp_all add: startswith_def ustr_def)

lemma isspace_nick_chars:
  "\<not> isspace 45" "\<not> isspace 110" "\<not> isspace 105" "\<not> isspace 99" "\<not> isspace 107"
  "isspace 32"
  by (simp_all add: isspace_def)

lemma split_nick:
  "split_None_1 (ustr ''-nick '' @ rest) =
   (if dropWhile isspace rest = [] then [ustr ''-nick'']
    else [ustr ''-nick'', dropWhile isspace rest])"
  by (simp add: split_None_1_def ustr_def isspace_nick_chars Let_def)

lemma handle_message_blank_nick:
  assumes "body stanza = Some (ustr ''-nick '' @ rest)" "dropWhile isspace rest = []"
  shows "handle_message env stanza s =
    (Inl IndexError,
     logging_info (ustr ''[%s] %s'')
       [AJID (bare (from_jid stanza)), AStr (ustr ''-nick '' @ rest)] s)"
  using assms
  by (simp add: handle_message_def nick_prefix split_nick getitem_def Let_def)

lemma handle_message_nick:
  assumes "body stanza = Some (ustr ''-nick '' @ rest)" "dropWhile isspace rest \<noteq> []"
  shows "handle_message env stanza s =
    (let sender = from_jid stanza; bare_j = bare sender; nick = dropWhile isspace rest;
         s1 = logging_info (ustr ''[%s] %s'') [AJID bare_j, AStr (ustr ''-nick '' @ rest)] s;
         old_nick = projr (get_name env s (Inr sender));
         s3 = send_message sender nick_updated (update_roster bare_j nick s1)
     in (Inr True,
         send_each (fst (get_online_users s3)) bare_j (nick_announcement old_nick nick)
           (snd (get_online_users s3))))"
  using assms
  by (simp add: handle_message_def nick_prefix split_nick getitem_def Let_def get_name_JID
      logging_info_def split_beta)

lemma handle_message_ping:
  assumes "body stanza = Some (ustr ''ping'')"
  shows "handle_message env stanza s =
    (Inr True,
     send_message (bare (from_jid stanza)) (ustr ''pong'')
       (logging_info (ustr ''[%s] %s'') [AJID (bare (from_jid stanza)), AStr (ustr ''ping'')] s))"
  using assms by (simp add: handle_message_def Let_def)

lemma handle_message_broadcast:
  assumes "body stanza = Some b" "b \<noteq> ustr ''ping''" "\<not> startswith b (ustr ''-nick '')"
  shows "handle_message env stanza s =
    (let bare_j = bare (from_jid stanza);
         s1 = logging_info (ustr ''[%s] %s'') [AJID bare_j, AStr b] s
     in (Inr True,
         send_each (fst (get_online_users s1)) bare_j
           (ustr ''['' @ projr (get_name env s (Inr bare_j)) @ ustr ''] '' @ b)
           (snd (get_online_users s1))))"
  using assms
  by (simp add: handle_message_def Let_def send_to_all_eq get_name_JID logging_info_def)

lemma get_name_stored:
  "get_name env s (Inr j) =
   Inr (or_else (stored_name (roster s) (bare j)) (hashjid env (bare j)))"
  by (simp add: get_name_def stored_name_def or_else_def split: sum.splits)

lemma stored_name_upsert: "stored_name (upsertName items j n) j = Some n"
proof (cases "find (\<lambda>x. jid x = j) items")
  case None
  have "find P (xs @ [y]) = (case find P xs of None \<Rightarrow> (if P y then Some y else None) | Some x \<Rightarrow> Some x)"
    for P :: "RosterItem \<Rightarrow> bool" and xs y
    by (induction xs) simp_all
  then show ?thesis
    using None by (simp add: stored_name_def roster_getitem_def upsertName_def)
next
  case (Some x)
  have f: "find (\<lambda>x. jid x = j) (map (\<lambda>x. if jid x = j then x\<lparr>name := Some n\<rparr> else x) xs) =
        map_option (\<lambda>x. x\<lparr>name := Some n\<rparr>) (find (\<lambda>x. jid x = j) xs)" for xs
    by (induction xs) simp_all
  show ?thesis
    by (simp add: stored_name_def roster_getitem_def upsertName_def f Some)
qed

lemma online_cong:
  "roster s = roster t \<Longrightarrow> presence s = presence t \<Longrightarrow>
   fst (get_online_users s) = fst (get_online_users t)"
  by (simp add: get_online_users_fst)

lemma send_each_chat:
  "sent (send_each us sender msg s) =
   sent s @ map (\<lambda>u. chat_to s (jid u) msg) (filter (\<lambda>u. jid u \<noteq> sender) us)"
  by (simp add: send_each_sent chat_to_def)

lemma nick_change_state:
  fixes env :: environ and s :: ChatBot and stanza :: Message and rest :: pystr
  assumes "body stanza = Some (ustr ''-nick '' @ rest)" "dropWhile isspace rest \<noteq> []"
  defines "A \<equiv> from_jid stanza" and "new \<equiv> dropWhile isspace rest"
  defines "r \<equiv> handle_message env stanza s"
  shows "fst r = Inr True"
    and "roster (snd r) = upsertName (roster s) (bare A) new"
    and "sent (snd r) =
         sent s @ [chat_to s A nick_updated] @
         map (\<lambda>u. chat_to s (jid u)
                (nick_announcement (projr (get_name env s (Inr A))) new))
           (filter (\<lambda>u. jid u \<noteq> bare A)
              (fst (get_online_users (update_roster (bare A) new s))))"
proof -
  let ?s1 = "logging_info (ustr ''[%s] %s'') [AJID (bare A), AStr (ustr ''-nick '' @ rest)] s"
  let ?s3 = "send_message A nick_updated (update_roster (bare A) new ?s1)"
  have r: "r = (Inr True,
      send_each (fst (get_online_users ?s3)) (bare A)
        (nick_announcement (projr (get_name env s (Inr A))) new) (snd (get_online_users ?s3)))"
    unfolding r_def A_def new_def using handle_message_nick [OF assms(1,2), of env s]
    by (simp add: Let_def)
  show "fst r = Inr True" using r by simp
  show "roster (snd r) = upsertName (roster s) (bare A) new"
    using r
    by (simp add: send_each_fields get_online_users_fields send_message_def update_roster_def
        logging_info_def)
  have on: "fst (get_online_users ?s3) = fst (get_online_users (update_roster (bare A) new s))"
    by (rule online_cong) (simp_all add: send_message_def update_roster_def logging_info_def)
  show "sent (snd r) =
         sent s @ [chat_to s A nick_updated] @
         map (\<lambda>u. chat_to s (jid u)
                (nick_announcement (projr (get_name env s (Inr A))) new))
           (filter (\<lambda>u. jid u \<noteq> bare A)
              (fst (get_online_users (update_roster (bare A) new s))))"
    unfolding r on
    by (simp add: send_each_chat get_online_users_fields chat_to_def send_message_def
        update_roster_def logging_info_def)
qed

section \<open>Nickname changes\<close>

text \<open>
  Claim C2 fails on the code. A body of \<open>-nick\<close>, a space and nothing but spaces
  splits into the single word \<open>-nick\<close>, so \<open>split(None, 1)[1]\<close> raises IndexError:
  the handler does not reach the broadcast path, sends nothing and changes no name.
\<close>

theorem handle_message_blank_nick_raises:
  "fst (handle_message env (stanza\<lparr>body := Some (ustr ''-nick '' @ replicate n 0x20)\<rparr>) s) =
     Inl IndexError \<and>
   roster (snd (handle_message env (stanza\<lparr>body := Some (ustr ''-nick '' @ replicate n 0x20)\<rparr>) s)) =
     roster s \<and>
   sent (snd (handle_message env (stanza\<lparr>body := Some (ustr ''-nick '' @ replicate n 0x20)\<rparr>) s)) =
     sent s"
proof -
  have "dropWhile isspace (replicate n 0x20) = []"
    by (simp add: isspace_def)
  then show ?thesis
    using handle_message_blank_nick
      [of "stanza\<lparr>body := Some (ustr ''-nick '' @ replicate n 0x20)\<rparr>" "replicate n 0x20" env s]
    by (simp add: logging_info_def)
qed

text \<open>
  Claim C5. For a body \<open>-nick\<close> followed by a non-empty rest, the handler returns true
  and the sender's roster name is then the new name. The stanzas sent are one
  confirmation to the sender, whose body is the fixed text, then one announcement for
  every online contact but the sender's base identity. The announcement's body is the
  sender's previous display name (the stored name when not empty, else the pseudonym),
  the fixed middle text, the new name and the ideographic full stop: it starts with the
  previous name itself, with no sender prefix in brackets before it.
\<close>

theorem handle_message_nick_change:
  assumes "body stanza = Some (ustr ''-nick '' @ rest)" and "dropWhile isspace rest \<noteq> []"
  shows "fst (handle_message env stanza s) = Inr True \<and>
    stored_name (roster (snd (handle_message env stanza s))) (bare (from_jid stanza)) =
      Some (dropWhile isspace rest) \<and>
    get_name env s (Inr (from_jid stanza)) =
      Inr (or_else (stored_name (roster s) (bare (from_jid stanza)))
             (hashjid env (bare (from_jid stanza)))) \<and>
    sent (snd (handle_message env stanza s)) =
      sent s @
      [\<lparr>stanza_type = Some (ustr ''chat''), from_jid = self_jid s, to_jid = from_jid stanza,
        body = Some [0x6635, 0x79F0, 0x66F4, 0x65B0, 0x6210, 0x529F, 0xFF01]\<rparr>] @
      map (\<lambda>u. \<lparr>stanza_type = Some (ustr ''chat''), from_jid = self_jid s, to_jid = jid u,
                body =
                  Some (or_else (stored_name (roster s) (bare (from_jid stanza)))
                          (hashjid env (bare (from_jid stanza))) @
                        [0x20, 0x7684, 0x6635, 0x79F0, 0x5DF2, 0x66F4, 0x65B0, 0x4E3A, 0x20] @
                        dropWhile isspace rest @ [0x3002])\<rparr>)
        (filter (\<lambda>u. jid u \<noteq> bare (from_jid stanza))
           (fst (get_online_users
              (update_roster (bare (from_jid stanza)) (dropWhile isspace rest) s))))"
  using nick_change_state [OF assms, of env s]
  by (simp add: stored_name_upsert get_name_stored chat_to_def nick_announcement_def
      nick_updated_def)

lemma dropWhile_Charlie: "dropWhile isspace (ustr ''Charlie'') = ustr ''Charlie''"
  by (simp add: ustr_def isspace_def)

lemma online_after_rename:
  "fst (get_online_users (update_roster alice n bob_online)) =
   [\<lparr>jid = bob, name = None, subscription = ustr ''both''\<rparr>]"
  by (simp add: get_online_users_fst update_roster_def upsertName_def bob_online_fields
      sample_roster_def is_present_def alice_def bob_def ustr_def)

theorem handle_message_nick_change_witness:
  "body (message_from alice_phone (ustr ''-nick Charlie'')) =
     Some (ustr ''-nick '' @ ustr ''Charlie'') \<and>
   dropWhile isspace (ustr ''Charlie'') \<noteq> [] \<and>
   stored_name
     (roster (snd (handle_message sample_env (message_from alice_phone (ustr ''-nick Charlie''))
        bob_online))) alice = Some (ustr ''Charlie'') \<and>
   sent (snd (handle_message sample_env (message_from alice_phone (ustr ''-nick Charlie''))
      bob_online)) =
     [\<lparr>stanza_type = Some (ustr ''chat''), from_jid = bot_jid, to_jid = alice_phone,
       body = Some [0x6635, 0x79F0, 0x66F4, 0x65B0, 0x6210, 0x529F, 0xFF01]\<rparr>,
      \<lparr>stanza_type = Some (ustr ''chat''), from_jid = bot_jid, to_jid = bob,
       body =
         Some (ustr ''Al'' @
               [0x20, 0x7684, 0x6635, 0x79F0, 0x5DF2, 0x66F4, 0x65B0, 0x4E3A, 0x20] @
               ustr ''Charlie'' @ [0x3002])\<rparr>]"
proof -
  have b: "body (message_from alice_phone (ustr ''-nick Charlie'')) =
     Some (ustr ''-nick '' @ ustr ''Charlie'')"
    by (simp add: message_from_def ustr_def)
  have r: "dropWhile isspace (ustr ''Charlie'') \<noteq> []"
    by (simp add: ustr_def isspace_def)
  have f: "from_jid (message_from alice_phone (ustr ''-nick Charlie'')) = alice_phone"
    by (simp add: message_from_def)
  have a: "bare alice_phone = alice"
    by (simp add: bare_def alice_phone_def alice_def)
  have ne: "bob \<noteq> alice"
    by (simp add: bob_def alice_def ustr_def)
  have st: "stored_name sample_roster alice = Some (ustr ''Al'')"
    by (simp add: stored_name_def roster_getitem_def sample_roster_def alice_def)
  have al: "or_else (Some (ustr ''Al'')) d = ustr ''Al''" for d
    by (simp add: or_else_def ustr_def)
  show ?thesis
    using handle_message_nick_change [OF b r, of sample_env bob_online] b r
    by (simp add: f a ne dropWhile_Charlie online_after_rename bob_online_fields st al)
qed


lemma bare_bare [simp]: "bare (bare j) = bare j"
  by (simp add: bare_def)

lemma chat_to_cong: "self_jid s = self_jid t \<Longrightarrow> chat_to s = chat_to t"
  by (simp add: chat_to_def fun_eq_iff)

lemma broadcast_sent:
  assumes "body stanza = Some b" "b \<noteq> ustr ''ping''" "\<not> startswith b (ustr ''-nick '')"
  shows "sent (snd (handle_message env stanza s)) =
    sent s @
    map (\<lambda>u. chat_to s (jid u)
           (ustr ''['' @ projr (get_name env s (Inr (from_jid stanza))) @ ustr ''] '' @ b))
      (filter (\<lambda>u. jid u \<noteq> bare (from_jid stanza)) (fst (get_online_users s)))"
proof -
  define s1 where "s1 = logging_info (ustr ''[%s] %s'') [AJID (bare (from_jid stanza)), AStr b] s"
  have on: "fst (get_online_users s1) = fst (get_online_users s)"
    by (rule online_cong) (simp_all add: s1_def logging_info_def)
  have c: "chat_to (snd (get_online_users s1)) = chat_to s"
    by (rule chat_to_cong) (simp add: get_online_users_fields s1_def logging_info_def)
  have se: "sent (snd (get_online_users s1)) = sent s"
    by (simp add: get_online_users_fields s1_def logging_info_def)
  have nm: "get_name env s (Inr (bare (from_jid stanza))) = get_name env s (Inr (from_jid stanza))"
    by (simp add: get_name_stored)
  have "handle_message env stanza s =
      (Inr True,
       send_each (fst (get_online_users s1)) (bare (from_jid stanza))
         (ustr ''['' @ projr (get_name env s (Inr (from_jid stanza))) @ ustr ''] '' @ b)
         (snd (get_online_users s1)))"
    using handle_message_broadcast [OF assms, of env s]
    unfolding Let_def s1_def [symmetric] nm .
  then show ?thesis
    by (simp add: send_each_chat on c se)
qed

text \<open>
  Claim C6. After \<open>-nick Bob\<close> from a sender, \<open>get_name\<close> of that sender is \<open>Bob\<close>, and
  a message of the sender that is then broadcast goes out as \<open>[Bob] \<close> followed by the
  text, to every online contact but the sender.
\<close>

theorem nickname_round_trip:
  fixes env :: environ and s :: ChatBot and stanza :: Message and m :: pystr
  defines "s' \<equiv> snd (handle_message env (stanza\<lparr>body := Some (ustr ''-nick Bob'')\<rparr>) s)"
  shows "fst (handle_message env (stanza\<lparr>body := Some (ustr ''-nick Bob'')\<rparr>) s) = Inr True \<and>
    get_name env s' (Inr (from_jid stanza)) = Inr (ustr ''Bob'') \<and>
    (m \<noteq> ustr ''ping'' \<and> \<not> startswith m (ustr ''-nick '') \<longrightarrow>
     sent (snd (handle_message env (stanza\<lparr>body := Some m\<rparr>) s')) =
       sent s' @
       map (\<lambda>u. chat_to s' (jid u) (ustr ''[Bob] '' @ m))
         (filter (\<lambda>u. jid u \<noteq> bare (from_jid stanza)) (fst (get_online_users s'))))"
proof -
  let ?q = "stanza\<lparr>body := Some (ustr ''-nick Bob'')\<rparr>"
  have bq: "body ?q = Some (ustr ''-nick '' @ ustr ''Bob'')"
    by (simp add: ustr_def)
  have d: "dropWhile isspace (ustr ''Bob'') = ustr ''Bob''"
    by (simp add: ustr_def isspace_def)
  have r: "dropWhile isspace (ustr ''Bob'') \<noteq> []"
    by (simp add: d) (simp add: ustr_def)
  have ok: "fst (handle_message env ?q s) = Inr True"
    using nick_change_state(1) [OF bq r, of env s] by simp
  have ro: "roster s' = upsertName (roster s) (bare (from_jid stanza)) (ustr ''Bob'')"
    unfolding s'_def using nick_change_state(2) [OF bq r, of env s] by (simp add: d)
  have nm: "get_name env s' (Inr j) = Inr (ustr ''Bob'')" if "bare j = bare (from_jid stanza)" for j
    using that by (simp add: get_name_stored ro stored_name_upsert or_else_def) (simp add: ustr_def)
  have bc: "sent (snd (handle_message env (stanza\<lparr>body := Some m\<rparr>) s')) =
       sent s' @
       map (\<lambda>u. chat_to s' (jid u) (ustr ''[Bob] '' @ m))
         (filter (\<lambda>u. jid u \<noteq> bare (from_jid stanza)) (fst (get_online_users s')))"
    if "m \<noteq> ustr ''ping''" "\<not> startswith m (ustr ''-nick '')"
    using broadcast_sent [of "stanza\<lparr>body := Some m\<rparr>" m env s'] that
    by (simp add: nm) (simp add: ustr_def)
  show ?thesis
    using ok nm [of "from_jid stanza"] bc by simp
qed

lemma message_from_body:
  "(message_from j b)\<lparr>body := Some c\<rparr> = message_from j c"
  "from_jid (message_from j b) = j"
  "body (message_from j b) = Some b"
  by (simp_all add: message_from_def)

lemma bare_alice_phone: "bare alice_phone = alice"
  by (simp add: bare_def alice_phone_def alice_def)

lemma bob_not_alice: "bob \<noteq> alice"
  by (simp add: bob_def alice_def ustr_def)

lemma hello_plain:
  "ustr ''hello'' \<noteq> ustr ''ping''" "\<not> startswith (ustr ''hello'') (ustr ''-nick '')"
  by (simp_all add: ustr_def startswith_def)

lemma dropWhile_Bob: "dropWhile isspace (ustr ''Bob'') = ustr ''Bob''"
  by (simp add: ustr_def isspace_def)

lemma message_is_present:
  "is_present (presence (snd (handle_message env stanza s))) b = is_present (presence s) b"
  by (simp add: is_present_iff message_has_record)

lemma roster_after_nick_Bob: "roster after_nick_Bob = upsertName sample_roster alice (ustr ''Bob'')"
proof -
  have b: "body (message_from alice_phone (ustr ''-nick Bob'')) =
      Some (ustr ''-nick '' @ ustr ''Bob'')"
    by (simp add: message_from_def ustr_def)
  have r: "dropWhile isspace (ustr ''Bob'') \<noteq> []"
    by (simp add: ustr_def isspace_def)
  show ?thesis
    unfolding after_nick_Bob_def
    using nick_change_state(2) [OF b r, of sample_env bob_online]
    by (simp add: message_from_body bare_alice_phone dropWhile_Bob bob_online_fields)
qed

lemma online_after_nick_Bob:
  "fst (get_online_users after_nick_Bob) =
   [\<lparr>jid = bob, name = None, subscription = ustr ''both''\<rparr>]"
proof -
  have "is_present (presence after_nick_Bob) b = is_present (presence bob_online) b" for b
    unfolding after_nick_Bob_def by (rule message_is_present)
  then show ?thesis
    by (simp add: get_online_users_fst roster_after_nick_Bob upsertName_def bob_online_fields
        sample_roster_def is_present_def alice_def bob_def ustr_def)
qed

theorem nickname_round_trip_witness:
  "ustr ''hello'' \<noteq> ustr ''ping'' \<and> \<not> startswith (ustr ''hello'') (ustr ''-nick '') \<and>
   get_name sample_env after_nick_Bob (Inr alice_phone) = Inr (ustr ''Bob'') \<and>
   sent (snd (handle_message sample_env (message_from alice_phone (ustr ''hello''))
      after_nick_Bob)) =
     sent after_nick_Bob @ [chat_to after_nick_Bob bob (ustr ''[Bob] hello'')]"
  using nickname_round_trip
    [of sample_env "message_from alice_phone (ustr ''-nick Bob'')" bob_online "ustr ''hello''"]
    hello_plain
  unfolding message_from_body after_nick_Bob_def [symmetric]
  by (simp add: online_after_nick_Bob bare_alice_phone bob_not_alice) (simp add: ustr_def)


section \<open>Replies to the sender\<close>

text \<open>
  Claim C7, amended. The \<open>pong\<close> that answers a body of exactly \<open>ping\<close> is addressed
  to the sender's bare base identity; the confirmation of a nickname change is
  addressed to the sender's JID as the message carried it, sub-identity included.
\<close>

theorem reply_addresses:
  "(body stanza = Some (ustr ''ping'') \<longrightarrow>
    fst (handle_message env stanza s) = Inr True \<and>
    sent (snd (handle_message env stanza s)) =
      sent s @ [chat_to s (bare (from_jid stanza)) (ustr ''pong'')]) \<and>
   (body stanza = Some (ustr ''-nick '' @ rest) \<and> dropWhile isspace rest \<noteq> [] \<longrightarrow>
    sent (snd (handle_message env stanza s)) ! length (sent s) =
      chat_to s (from_jid stanza) nick_updated)"
proof -
  have ping: "fst (handle_message env stanza s) = Inr True \<and>
      sent (snd (handle_message env stanza s)) =
      sent s @ [chat_to s (bare (from_jid stanza)) (ustr ''pong'')]"
    if "body stanza = Some (ustr ''ping'')"
    using handle_message_ping [OF that, of env s]
    by (simp add: send_message_def logging_info_def chat_to_def)
  have nick: "sent (snd (handle_message env stanza s)) ! length (sent s) =
      chat_to s (from_jid stanza) nick_updated"
    if "body stanza = Some (ustr ''-nick '' @ rest)" "dropWhile isspace rest \<noteq> []"
    using nick_change_state(3) [OF that, of env s] by (simp add: nth_append)
  show ?thesis
    using ping nick by blast
qed

theorem reply_addresses_witness:
  "body (message_from alice_phone (ustr ''ping'')) = Some (ustr ''ping'') \<and>
   map to_jid (sent (snd (handle_message sample_env (message_from alice_phone (ustr ''ping''))
      sample_bot))) = [alice] \<and>
   body (message_from alice_phone (ustr ''-nick Bob'')) = Some (ustr ''-nick '' @ ustr ''Bob'') \<and>
   dropWhile isspace (ustr ''Bob'') \<noteq> [] \<and>
   sent (snd (handle_message sample_env (message_from alice_phone (ustr ''-nick Bob''))
      sample_bot)) ! 0 = chat_to sample_bot alice_phone nick_updated"
proof -
  have p: "body (message_from alice_phone (ustr ''ping'')) = Some (ustr ''ping'')"
    by (simp add: message_from_def)
  have b: "body (message_from alice_phone (ustr ''-nick Bob'')) =
      Some (ustr ''-nick '' @ ustr ''Bob'')"
    by (simp add: message_from_def ustr_def)
  have r: "dropWhile isspace (ustr ''Bob'') \<noteq> []"
    by (simp add: ustr_def isspace_def)
  have e: "sent sample_bot = []"
    by (simp add: sample_bot_def)
  show ?thesis
    using reply_addresses [of "message_from alice_phone (ustr ''ping'')" sample_env sample_bot]
      reply_addresses [of "message_from alice_phone (ustr ''-nick Bob'')" sample_env sample_bot
        "ustr ''Bob''"] p b r
    by (simp add: e message_from_body bare_alice_phone chat_to_def)
qed

text \<open>
  Claim C7 as stated fails: for \<open>-nick Bob\<close> from Alice's phone the confirmation goes
  to the phone's full JID, which is not her bare base identity.
\<close>

theorem nick_confirmation_to_full_jid:
  "body (hd (sent (snd (handle_message sample_env (message_from alice_phone (ustr ''-nick Bob''))
      sample_bot)))) = Some nick_updated \<and>
   to_jid (hd (sent (snd (handle_message sample_env (message_from alice_phone (ustr ''-nick Bob''))
      sample_bot)))) = alice_phone \<and>
   alice_phone \<noteq> bare (from_jid (message_from alice_phone (ustr ''-nick Bob'')))"
proof -
  have b: "body (message_from alice_phone (ustr ''-nick Bob'')) =
      Some (ustr ''-nick '' @ ustr ''Bob'')"
    by (simp add: message_from_def ustr_def)
  have r: "dropWhile isspace (ustr ''Bob'') \<noteq> []"
    by (simp add: ustr_def isspace_def)
  have e: "sent sample_bot = []"
    by (simp add: sample_bot_def)
  have ne: "alice_phone \<noteq> alice"
    by (simp add: alice_phone_def alice_def)
  show ?thesis
    using nick_change_state(3) [OF b r, of sample_env sample_bot] ne
    by (simp add: e message_from_body bare_alice_phone chat_to_def)
qed


section \<open>Display names\<close>

lemma get_name_str:
  "get_name env s (Inl str) =
   (case JID_of_str env str of
      Inl e \<Rightarrow> Inl e
    | Inr j \<Rightarrow> Inr (or_else (stored_name (roster s) j) (hashjid env j)))"
  by (simp add: get_name_def stored_name_def or_else_def split: sum.splits)

text \<open>
  Claim C9, amended. On a JID, with or without a sub-identity, \<open>get_name\<close> never fails:
  it looks the bare JID up and returns the roster's name when that is not empty, and
  the pseudonym of the bare JID otherwise; a missing item and an item without a name
  give the same result. On a string it raises what the JID constructor raises, and for
  a string that denotes a JID without sub-identity it returns what it returns for that
  JID.
\<close>

theorem get_name_spec:
  "(stored_name (roster s) (bare j) = Some n \<and> n \<noteq> [] \<longrightarrow> get_name env s (Inr j) = Inr n) \<and>
   (stored_name (roster s) (bare j) = None \<or> stored_name (roster s) (bare j) = Some [] \<longrightarrow>
    get_name env s (Inr j) = Inr (hashjid env (bare j))) \<and>
   (JID_of_str env str = Inr j' \<and> resource j' = None \<longrightarrow>
    get_name env s (Inl str) = get_name env s (Inr j')) \<and>
   (JID_of_str env str = Inl e \<longrightarrow> get_name env s (Inl str) = Inl e)"
proof -
  have a: "get_name env s (Inr j) = Inr n" if "stored_name (roster s) (bare j) = Some n" "n \<noteq> []"
    using that by (simp add: get_name_stored or_else_def)
  have b: "get_name env s (Inr j) = Inr (hashjid env (bare j))"
    if "stored_name (roster s) (bare j) = None \<or> stored_name (roster s) (bare j) = Some []"
    using that by (auto simp: get_name_stored or_else_def)
  have c: "get_name env s (Inl str) = get_name env s (Inr j')"
    if "JID_of_str env str = Inr j'" "resource j' = None"
  proof -
    have "bare j' = j'" using that(2) by (simp add: bare_def)
    then show ?thesis using that(1) by (simp add: get_name_str get_name_stored)
  qed
  have d: "get_name env s (Inl str) = Inl e" if "JID_of_str env str = Inl e"
    using that by (simp add: get_name_str)
  show ?thesis
    using a b c d by blast
qed

lemma parse_samples:
  "parse_jid [] = Inl JIDError"
  "parse_jid (ustr ''bob@example.org'') = Inr bob"
  "parse_jid (ustr ''alice@example.org/phone'') = Inr alice_phone"
  by (simp_all add: parse_jid_def ustr_def bob_def alice_phone_def)

lemma stored_name_sample:
  "stored_name sample_roster alice = Some (ustr ''Al'')"
  "stored_name sample_roster bob = None"
  "stored_name sample_roster alice_phone = None"
  by (simp_all add: stored_name_def roster_getitem_def sample_roster_def alice_def bob_def
      alice_phone_def ustr_def)

theorem get_name_spec_witness:
  "stored_name (roster sample_bot) (bare alice_phone) = Some (ustr ''Al'') \<and> ustr ''Al'' \<noteq> [] \<and>
   get_name sample_env sample_bot (Inr alice_phone) = Inr (ustr ''Al'') \<and>
   stored_name (roster sample_bot) (bare bob_desk) = None \<and>
   get_name sample_env sample_bot (Inr bob_desk) = Inr (hashjid sample_env bob) \<and>
   JID_of_str sample_env (ustr ''bob@example.org'') = Inr bob \<and> resource bob = None \<and>
   get_name sample_env sample_bot (Inl (ustr ''bob@example.org'')) =
     Inr (hashjid sample_env bob) \<and>
   JID_of_str sample_env [] = Inl JIDError \<and>
   get_name sample_env sample_bot (Inl []) = Inl JIDError"
proof -
  have r: "roster sample_bot = sample_roster"
    by (simp add: sample_bot_def)
  have bb: "bare bob_desk = bob" "bare bob = bob" "resource bob = None"
    by (simp_all add: bare_def bob_desk_def bob_def)
  have al: "ustr ''Al'' \<noteq> []"
    by (simp add: ustr_def)
  have p: "JID_of_str sample_env = parse_jid"
    by (simp add: sample_env_def)
  show ?thesis
    using get_name_spec [where s = sample_bot and j = alice_phone and n = "ustr ''Al''" and
        env = sample_env and str = "ustr ''bob@example.org''" and j' = bob]
      get_name_spec [where s = sample_bot and j = bob_desk and env = sample_env and
        str = "[]" and e = JIDError]
      get_name_spec [where s = sample_bot and j = bob and env = sample_env]
    by (simp add: r bb al p parse_samples stored_name_sample bare_alice_phone)
qed

text \<open>
  Claim C9 as stated fails on strings: a string that is no JID makes \<open>get_name\<close> raise,
  and a string with a sub-identity is looked up as it is, so Alice's stored name is not
  found for the string of her phone's JID although it is found for that JID itself.
\<close>

theorem get_name_str_not_total_not_normalized:
  "get_name sample_env sample_bot (Inl []) = Inl JIDError \<and>
   get_name sample_env sample_bot (Inr alice_phone) = Inr (ustr ''Al'') \<and>
   get_name sample_env sample_bot (Inl (ustr ''alice@example.org/phone'')) =
     Inr (hashjid sample_env alice_phone) \<and>
   hashjid sample_env alice_phone \<noteq> ustr ''Al''"
proof -
  have r: "roster sample_bot = sample_roster"
    by (simp add: sample_bot_def)
  have p: "JID_of_str sample_env = parse_jid"
    by (simp add: sample_env_def)
  have h: "hashjid sample_env alice_phone \<noteq> ustr ''Al''"
    by (simp add: hashjid_def Let_def fmt_s_def alice_phone_def ustr_def)
  have a: "get_name sample_env sample_bot (Inl []) = Inl JIDError"
    by (simp add: get_name_def p parse_samples)
  have b: "get_name sample_env sample_bot (Inr alice_phone) = Inr (ustr ''Al'')"
    by (simp add: get_name_stored r bare_alice_phone stored_name_sample or_else_def)
      (simp add: ustr_def)
  have c: "get_name sample_env sample_bot (Inl (ustr ''alice@example.org/phone'')) =
     Inr (hashjid sample_env alice_phone)"
    using stored_name_sample(3)
    by (simp add: get_name_def p parse_samples r stored_name_def or_else_def split: sum.splits)
  show ?thesis
    using a b c h by simp
qed

end
